theory Spec2Isabelle
  imports Complex_Main
begin

section \<open>gRPC status codes and exceptions\<close>

text \<open>
  The members of \<^verbatim>\<open>grpc.StatusCode\<close> that the two services set or inspect, and the
  remaining ones a call can end with.
\<close>

datatype status_code =
    OK | CANCELLED | UNKNOWN | INVALID_ARGUMENT | DEADLINE_EXCEEDED | NOT_FOUND
  | ALREADY_EXISTS | PERMISSION_DENIED | RESOURCE_EXHAUSTED | FAILED_PRECONDITION
  | ABORTED | OUT_OF_RANGE | UNIMPLEMENTED | INTERNAL | UNAVAILABLE | DATA_LOSS
  | UNAUTHENTICATED

section \<open>The backend: \<^verbatim>\<open>grpc/server.py\<close>\<close>

text \<open>
  A document of the Mongo collection \<^verbatim>\<open>items\<close> is \<^verbatim>\<open>{"id": ..., "name": ...}\<close>; the
  collection is the list of its documents in insertion order. Identifiers are Python
  integers. The module-level \<^verbatim>\<open>collection\<close> is \<^verbatim>\<open>None\<close> when the connection at
  start-up failed, so it is an option here. The store is modelled as reachable: a query
  on an existing collection answers, and the only \<^verbatim>\<open>PyMongoError\<close> left is the one of
  the unique index on \<^verbatim>\<open>id\<close> (line 62).
\<close>

record item_doc =
  doc_id :: int
  doc_name :: string

type_synonym collection = "item_doc list"

record ItemRequest =
  req_id :: int
  req_name :: string

record ItemResponse =
  resp_id :: int
  resp_name :: string

text \<open>\<^verbatim>\<open>items_pb2.ItemResponse()\<close>: every field at its default.\<close>

definition empty_response :: ItemResponse where
  "empty_response = \<lparr>resp_id = 0, resp_name = []\<rparr>"

text \<open>The servicer context: \<^verbatim>\<open>set_code\<close> and \<^verbatim>\<open>set_details\<close> overwrite its two fields.\<close>

record rpc_context =
  code :: status_code
  details :: string

definition fresh_context :: rpc_context where
  "fresh_context = \<lparr>code = OK, details = []\<rparr>"

datatype mongo_error = DuplicateKeyError

text \<open>\<^verbatim>\<open>collection.find_one({"id": x})\<close>: the first document with that identifier.\<close>

definition find_one_id :: "collection \<Rightarrow> int \<Rightarrow> item_doc option" where
  "find_one_id docs x = find (\<lambda>d. doc_id d = x) docs"

text \<open>\<^verbatim>\<open>collection.find_one(sort=[("id", -1)])\<close>: a document of greatest identifier.\<close>

fun greatest :: "item_doc \<Rightarrow> collection \<Rightarrow> item_doc" where
  "greatest best [] = best"
| "greatest best (d # ds) = greatest (if doc_id best < doc_id d then d else best) ds"

definition find_one_sort_id_desc :: "collection \<Rightarrow> item_doc option" where
  "find_one_sort_id_desc docs = (case docs of [] \<Rightarrow> None | d # ds \<Rightarrow> Some (greatest d ds))"

text \<open>\<^verbatim>\<open>collection.insert_one(doc)\<close> under the unique index on \<^verbatim>\<open>id\<close>.\<close>

definition insert_one :: "collection \<Rightarrow> item_doc \<Rightarrow> mongo_error + collection" where
  "insert_one docs d =
     (if find_one_id docs (doc_id d) \<noteq> None then Inl DuplicateKeyError else Inr (docs @ [d]))"

definition check_db :: "collection option \<Rightarrow> rpc_context \<Rightarrow> bool \<times> rpc_context" where
  "check_db coll ctx =
     (if coll = None
      then (False, ctx\<lparr>code := UNAVAILABLE, details := ''Database unavailable''\<rparr>)
      else (True, ctx))"

definition get_next_id :: "collection \<Rightarrow> int" where
  "get_next_id docs =
     (case find_one_sort_id_desc docs of Some last_item \<Rightarrow> doc_id last_item + 1 | None \<Rightarrow> 1)"

text \<open>
  \<^verbatim>\<open>AddItem\<close> returns the response message, the context as the handler leaves it, and
  the collection after the call.
\<close>

definition AddItem ::
  "collection option \<Rightarrow> ItemRequest \<Rightarrow> rpc_context \<Rightarrow> ItemResponse \<times> rpc_context \<times> collection option"
where
  "AddItem coll request ctx =
     (case check_db coll ctx of
        (False, ctx') \<Rightarrow> (empty_response, ctx', coll)
      | (True, ctx') \<Rightarrow>
          (case coll of
             None \<Rightarrow> (empty_response, ctx', coll)
           | Some docs \<Rightarrow>
               if req_id request > 0 \<and> find_one_id docs (req_id request) \<noteq> None
               then (empty_response,
                     ctx'\<lparr>code := ALREADY_EXISTS, details := ''Item exists''\<rparr>, coll)
               else
                 let new_id = (if req_id request > 0 then req_id request else get_next_id docs)
                 in (case insert_one docs \<lparr>doc_id = new_id, doc_name = req_name request\<rparr> of
                       Inl e \<Rightarrow>
                         (empty_response,
                          ctx'\<lparr>code := INTERNAL, details := ''Database error''\<rparr>, coll)
                     | Inr docs' \<Rightarrow>
                         (\<lparr>resp_id = new_id, resp_name = req_name request\<rparr>, ctx', Some docs'))))"

text \<open>The identifiers held by a collection, and the claims' "highest existing + 1, or 1".\<close>

definition ids :: "collection \<Rightarrow> int set" where
  "ids docs = doc_id ` set docs"

definition next_sequential :: "collection \<Rightarrow> int" where
  "next_sequential docs = (if docs = [] then 1 else Max (ids docs) + 1)"

section \<open>The gateway: \<^verbatim>\<open>rest/app.py\<close>\<close>

subsection \<open>Exceptions, the process state and the backend seen from the gateway\<close>

datatype py_exn = RpcError status_code string | CircuitBreakerError | TypeError

fun is_RpcError :: "py_exn \<Rightarrow> bool" where
  "is_RpcError (RpcError c d) = True"
| "is_RpcError e = False"

text \<open>
  What the gateway leaves a request with: a status code with details (a
  \<^verbatim>\<open>grpc.RpcError\<close> at the stub) or the reply message.
\<close>

datatype 'r rpc_outcome = Replied 'r | Failed status_code string

text \<open>
  The backend behind the channel. Each field gives the outcome of a request to one
  method of \<^verbatim>\<open>ItemServiceStub\<close>, as a function of how many requests the gateway has
  sent before it, so that a backend may answer every request differently (down, then up
  again).
\<close>

record backend =
  stub_GetItemById :: "nat \<Rightarrow> ItemRequest \<Rightarrow> ItemResponse rpc_outcome"
  stub_ListAllItems :: "nat \<Rightarrow> ItemResponse list rpc_outcome"
  stub_AddItem :: "nat \<Rightarrow> ItemRequest \<Rightarrow> ItemResponse rpc_outcome"

datatype breaker_mode = CLOSED | OPEN | HALF_OPEN

record breaker_state =
  mode :: breaker_mode
  fail_counter :: nat
  opened_at :: real

text \<open>
  The state of the gateway process: the wall clock in seconds, the delays passed to
  \<^verbatim>\<open>time.sleep\<close> so far (oldest first), the number of requests sent to the backend,
  and the module-level \<^verbatim>\<open>breaker\<close>. Delays are exact rationals: \<^verbatim>\<open>0.1\<close> stands for
  one tenth of a second, and doubling is exact in binary floating point as well.
\<close>

record world =
  clock :: real
  slept :: "real list"
  backend_calls :: nat
  breaker :: breaker_state

definition time_sleep :: "real \<Rightarrow> world \<Rightarrow> world" where
  "time_sleep d w = w\<lparr>clock := clock w + d, slept := slept w @ [d]\<rparr>"

text \<open>Time passing between two requests.\<close>

definition tick :: "real \<Rightarrow> world \<Rightarrow> world" where
  "tick d w = w\<lparr>clock := clock w + d\<rparr>"

text \<open>
  A call of a stub method, \<^verbatim>\<open>stub.M(request, timeout=...)\<close>: one request goes to the
  backend, and a status other than OK is raised as \<^verbatim>\<open>grpc.RpcError\<close>.
\<close>

definition call_stub :: "(nat \<Rightarrow> 'r rpc_outcome) \<Rightarrow> world \<Rightarrow> (py_exn + 'r) \<times> world" where
  "call_stub rpc w =
     ((case rpc (backend_calls w) of
         Replied r \<Rightarrow> Inr r
       | Failed c d \<Rightarrow> Inl (RpcError c d)),
      w\<lparr>backend_calls := Suc (backend_calls w)\<rparr>)"

subsection \<open>The circuit breaker\<close>

text \<open>
  The arguments of \<^verbatim>\<open>CircuitBreaker(fail_max=3, reset_timeout=30, exclude=[...])\<close>,
  lines 127 to 136.
\<close>

definition fail_max :: nat where
  "fail_max = 3"

definition reset_timeout :: real where
  "reset_timeout = 30"

definition exclude :: "status_code list" where
  "exclude = [NOT_FOUND, INVALID_ARGUMENT]"

text \<open>
  Modelled from the spec: which outcomes of a guarded call the breaker counts as failures.
  The class \<^verbatim>\<open>CircuitBreaker\<close> comes from the package \<^verbatim>\<open>pybreaker\<close>, which is not among
  the sources; the spec (4.2) says that the excluded backend outcomes "do NOT count as
  failures for breaker purposes". Every other raised error is a failure.
\<close>

definition counts_as_failure :: "py_exn + 'a \<Rightarrow> bool" where
  "counts_as_failure r =
     (case r of
        Inr v \<Rightarrow> False
      | Inl (RpcError c d) \<Rightarrow> c \<notin> set exclude
      | Inl e \<Rightarrow> True)"

text \<open>
  Modelled from the spec: the transition of the breaker (missing: \<^verbatim>\<open>pybreaker\<close>) after a
  call that was let through. Spec 4.2: in \<open>CLOSED\<close> "each failure increments the
  consecutive-failure count; reaching the threshold (3) transitions to OPEN and records the
  open timestamp"; in \<open>HALF_OPEN\<close> "success resets the failure count and transitions to
  CLOSED; failure re-opens immediately and restarts the timeout". The count is one of
  consecutive failures, so an outcome that is not a failure sets it to 0.
\<close>

definition on_outcome :: "real \<Rightarrow> bool \<Rightarrow> breaker_state \<Rightarrow> breaker_state" where
  "on_outcome now failed b =
     (if failed
      then (let n = Suc (fail_counter b)
            in if mode b = HALF_OPEN \<or> fail_max \<le> n
               then \<lparr>mode = OPEN, fail_counter = n, opened_at = now\<rparr>
               else b\<lparr>fail_counter := n\<rparr>)
      else \<lparr>mode = CLOSED, fail_counter = 0, opened_at = opened_at b\<rparr>)"

text \<open>
  Modelled from the spec: \<^verbatim>\<open>breaker.call(operation, ...)\<close> (missing: \<^verbatim>\<open>pybreaker\<close>).
  Spec 4.2: in \<open>OPEN\<close> "calls are rejected immediately with a breaker-open error, no backend
  traffic is sent. After the reset timeout (30s) elapses since opening, the next call is
  allowed through in HALF_OPEN"; in \<open>CLOSED\<close> "calls pass through". The result or error of
  a call that was let through is handed to the caller.
\<close>

definition breaker_call ::
  "(world \<Rightarrow> (py_exn + 'a) \<times> world) \<Rightarrow> world \<Rightarrow> (py_exn + 'a) \<times> world"
where
  "breaker_call operation w =
     (let b = breaker w
      in if mode b = OPEN \<and> clock w < opened_at b + reset_timeout
         then (Inl CircuitBreakerError, w)
         else
           (let w1 = (if mode b = OPEN then w\<lparr>breaker := b\<lparr>mode := HALF_OPEN\<rparr>\<rparr> else w)
            in case operation w1 of
                 (r, w2) \<Rightarrow>
                   (r, w2\<lparr>breaker :=
                            on_outcome (clock w2) (counts_as_failure r) (breaker w2)\<rparr>)))"

text \<open>
  Modelled from the spec: \<^verbatim>\<open>breaker.close()\<close> (missing: \<^verbatim>\<open>pybreaker\<close>), which the
  handler of \<^verbatim>\<open>/reset-breaker\<close> reports as state "closed" with "fail_count" 0.
\<close>

definition breaker_close :: "breaker_state \<Rightarrow> breaker_state" where
  "breaker_close b = \<lparr>mode = CLOSED, fail_counter = 0, opened_at = opened_at b\<rparr>"

subsection \<open>The retry decorator\<close>

text \<open>
  \<^verbatim>\<open>retry_grpc(max_retries, initial_delay)(f)\<close>. The loop variable \<^verbatim>\<open>attempt\<close> runs over
  \<^verbatim>\<open>range(max_retries)\<close>. A \<^verbatim>\<open>grpc.RpcError\<close> of any status code is slept on and retried
  unless the attempt is the last one; any other exception is raised again at once. When
  the range is empty the wrapper falls off the loop and returns \<^verbatim>\<open>None\<close>.
\<close>

function retry_loop ::
  "int \<Rightarrow> int \<Rightarrow> real \<Rightarrow> (world \<Rightarrow> (py_exn + 'a) \<times> world) \<Rightarrow> world
   \<Rightarrow> (py_exn + 'a option) \<times> world"
where
  "retry_loop max_retries attempt delay f w =
     (if attempt < max_retries
      then (case f w of
              (Inr v, w') \<Rightarrow> (Inr (Some v), w')
            | (Inl e, w') \<Rightarrow>
                if is_RpcError e
                then (if attempt = max_retries - 1
                      then (Inl e, w')
                      else retry_loop max_retries (attempt + 1) (delay * 2) f
                             (time_sleep delay w'))
                else (Inl e, w'))
      else (Inr None, w))"
  by pat_completeness auto
termination
  by (relation "measure (\<lambda>(m, a, d, f, w). nat (m - a))") auto

declare retry_loop.simps [simp del]

definition retry_grpc ::
  "int \<Rightarrow> real \<Rightarrow> (world \<Rightarrow> (py_exn + 'a) \<times> world) \<Rightarrow> world \<Rightarrow> (py_exn + 'a option) \<times> world"
where
  "retry_grpc max_retries initial_delay f w = retry_loop max_retries 0 initial_delay f w"

text \<open>\<^verbatim>\<open>@retry_grpc()\<close>: the defaults \<^verbatim>\<open>max_retries=3, initial_delay=0.1\<close>.\<close>

definition retry_grpc_default ::
  "(world \<Rightarrow> (py_exn + 'a) \<times> world) \<Rightarrow> world \<Rightarrow> (py_exn + 'a option) \<times> world"
where
  "retry_grpc_default = retry_grpc 3 (1 / 10)"

subsection \<open>Requests, responses and the token decorator\<close>

text \<open>
  A JSON value of a request body or a token payload (integers and strings; the other
  JSON types are not modelled), and a JSON object as its list of members.
\<close>

datatype jvalue = JInt int | JStr string

type_synonym jobject = "(string \<times> jvalue) list"

text \<open>
  The part of \<^verbatim>\<open>flask.request\<close> the handlers read: the \<^verbatim>\<open>Authorization\<close> header,
  \<^verbatim>\<open>request.is_json\<close> and the object \<^verbatim>\<open>request.get_json()\<close> returns. A body that does not
  parse is not modelled.
\<close>

record http_request =
  authorization :: "string option"
  is_json :: bool
  json :: jobject

datatype grpc_status = Connected | Disconnected status_code | GrpcError

datatype body =
    Error string
  | ItemJson int string
  | ItemsJson "(int \<times> string) list"
  | BreakerJson string string nat
  | HealthJson string grpc_status string breaker_mode
  | InternalServerError

type_synonym response = "body \<times> nat"

text \<open>
  \<^verbatim>\<open>jwt.decode(token, SECRET_KEY, algorithms=['HS256'])\<close> of PyJWT is a parameter of the
  model: a function from the token to the payload or to the exception raised.
\<close>

datatype jwt_error = ExpiredSignatureError | InvalidTokenError | OtherJwtError

definition startswith :: "string \<Rightarrow> string \<Rightarrow> bool" where
  "startswith s p = (take (length p) s = p)"

text \<open>\<^verbatim>\<open>s.split(' ')[1]\<close>; \<open>None\<close> is the \<^verbatim>\<open>IndexError\<close> of a string without a space.\<close>

definition split_space_1 :: "string \<Rightarrow> string option" where
  "split_space_1 s =
     (case dropWhile (\<lambda>c. c \<noteq> CHR '' '') s of
        [] \<Rightarrow> None
      | c # rest \<Rightarrow> Some (takeWhile (\<lambda>c. c \<noteq> CHR '' '') rest))"

definition token_required ::
  "(string \<Rightarrow> jwt_error + jobject) \<Rightarrow> (jvalue \<Rightarrow> http_request \<Rightarrow> world \<Rightarrow> response \<times> world)
   \<Rightarrow> http_request \<Rightarrow> world \<Rightarrow> response \<times> world"
where
  "token_required jwt_decode f request w =
     (case authorization request of
        None \<Rightarrow> ((Error ''Missing authorization header'', 401), w)
      | Some auth_header \<Rightarrow>
          if auth_header = [] then ((Error ''Missing authorization header'', 401), w)
          else if \<not> startswith auth_header ''Bearer ''
          then ((Error ''Invalid authorization header format'', 401), w)
          else
            (case split_space_1 auth_header of
               None \<Rightarrow> ((Error ''Authentication failed'', 401), w)
             | Some token \<Rightarrow>
                 (case jwt_decode token of
                    Inl ExpiredSignatureError \<Rightarrow> ((Error ''Token has expired'', 401), w)
                  | Inl InvalidTokenError \<Rightarrow> ((Error ''Invalid token'', 401), w)
                  | Inl OtherJwtError \<Rightarrow> ((Error ''Authentication failed'', 401), w)
                  | Inr payload \<Rightarrow>
                      (case map_of payload ''username'' of
                         None \<Rightarrow> ((Error ''Authentication failed'', 401), w)
                       | Some current_user \<Rightarrow> f current_user request w))))"

subsection \<open>The handlers\<close>

text \<open>
  \<^verbatim>\<open>create_item\<close>, lines 253 to 279. \<^verbatim>\<open>ItemRequest(id=..., name=...)\<close> raises
  \<^verbatim>\<open>TypeError\<close> on a field of the wrong JSON type, inside the \<^verbatim>\<open>try\<close>. The declaration
  of the message is not among the sources, so identifiers are not bounded here.
\<close>

definition create_item ::
  "backend \<Rightarrow> jvalue \<Rightarrow> http_request \<Rightarrow> world \<Rightarrow> response \<times> world"
where
  "create_item be current_user request w =
     (if \<not> is_json request then ((Error ''Request must be JSON'', 400), w)
      else
        (let data = json request
         in if data = [] \<or> map_of data ''name'' = None
            then ((Error ''Name is required'', 400), w)
            else
              (case (case map_of data ''id'' of None \<Rightarrow> Some (JInt 0) | Some v \<Rightarrow> Some v,
                     map_of data ''name'') of
                 (Some (JInt i), Some (JStr n)) \<Rightarrow>
                   (case breaker_call
                           (call_stub (\<lambda>k. stub_AddItem be k \<lparr>req_id = i, req_name = n\<rparr>)) w of
                      (Inr r, w') \<Rightarrow> ((ItemJson (resp_id r) (resp_name r), 201), w')
                    | (Inl (RpcError c d), w') \<Rightarrow>
                        ((Error (''Service error: '' @ d), 500), w')
                    | (Inl e, w') \<Rightarrow> ((Error ''Internal server error'', 500), w'))
               | other \<Rightarrow> ((Error ''Internal server error'', 500), w))))"

text \<open>\<^verbatim>\<open>get_all_items\<close>, lines 284 to 290: the function the decorators are applied to.\<close>

definition get_all_items ::
  "backend \<Rightarrow> jvalue \<Rightarrow> http_request \<Rightarrow> world \<Rightarrow> (py_exn + response) \<times> world"
where
  "get_all_items be current_user request w =
     (case call_stub (stub_ListAllItems be) w of
        (Inr items, w') \<Rightarrow>
          (Inr (ItemsJson (map (\<lambda>item. (resp_id item, resp_name item)) items), 200), w')
      | (Inl (RpcError c d), w') \<Rightarrow> (Inr (Error ''Service error'', 500), w')
      | (Inl e, w') \<Rightarrow> (Inl e, w'))"

text \<open>\<^verbatim>\<open>get_item\<close>, lines 294 to 304.\<close>

definition get_item :: "backend \<Rightarrow> int \<Rightarrow> world \<Rightarrow> (py_exn + response) \<times> world" where
  "get_item be item_id w =
     (case call_stub (\<lambda>k. stub_GetItemById be k \<lparr>req_id = item_id, req_name = []\<rparr>) w of
        (Inr item, w') \<Rightarrow>
          if resp_id item = 0 then (Inr (Error ''Item not found'', 404), w')
          else (Inr (ItemJson (resp_id item) (resp_name item), 200), w')
      | (Inl (RpcError c d), w') \<Rightarrow>
          if c = NOT_FOUND then (Inr (Error ''Item not found'', 404), w')
          else (Inr (Error ''Service error'', 500), w')
      | (Inl e, w') \<Rightarrow> (Inl e, w'))"

text \<open>\<^verbatim>\<open>health_check\<close>, lines 174 to 201.\<close>

definition health_check :: "backend \<Rightarrow> world \<Rightarrow> response \<times> world" where
  "health_check be w =
     (case call_stub (stub_ListAllItems be) w of
        (Inr items, w') \<Rightarrow>
          ((HealthJson ''healthy'' Connected ''enabled'' (mode (breaker w')), 200), w')
      | (Inl (RpcError c d), w') \<Rightarrow>
          ((HealthJson ''healthy'' (Disconnected c) ''enabled'' (mode (breaker w')), 200), w')
      | (Inl e, w') \<Rightarrow>
          ((HealthJson ''healthy'' GrpcError ''enabled'' (mode (breaker w')), 200), w'))"

text \<open>\<^verbatim>\<open>reset_breaker\<close>, lines 205 to 218.\<close>

definition reset_breaker :: "world \<Rightarrow> response \<times> world" where
  "reset_breaker w =
     ((BreakerJson ''success'' ''closed'' 0, 200), w\<lparr>breaker := breaker_close (breaker w)\<rparr>)"

text \<open>
  What Flask makes of a view function: its return value is the response; an exception
  that leaves it, or the return value \<^verbatim>\<open>None\<close>, is answered with 500.
\<close>

definition flask_view :: "(py_exn + response option) \<times> world \<Rightarrow> response \<times> world" where
  "flask_view rw =
     (case rw of
        (Inr (Some resp), w) \<Rightarrow> (resp, w)
      | (other, w) \<Rightarrow> ((InternalServerError, 500), w))"

text \<open>
  The routes of \<^verbatim>\<open>app.py\<close> that reach the backend or the breaker, each with the
  decorators the source puts on its view function, outermost first:
  \<^verbatim>\<open>POST /items\<close> is \<^verbatim>\<open>token_required(create_item)\<close>,
  \<^verbatim>\<open>GET /items\<close> is \<^verbatim>\<open>token_required(retry_grpc()(get_all_items))\<close>,
  \<^verbatim>\<open>GET /items/<int:item_id>\<close> is \<^verbatim>\<open>retry_grpc()(get_item)\<close>, and
  \<^verbatim>\<open>GET /health\<close> and \<^verbatim>\<open>POST /reset-breaker\<close> are undecorated.
\<close>

datatype route = POST_items | GET_items | GET_item int | GET_health | POST_reset_breaker

fun dispatch ::
  "(string \<Rightarrow> jwt_error + jobject) \<Rightarrow> backend \<Rightarrow> route \<Rightarrow> http_request \<Rightarrow> world
   \<Rightarrow> response \<times> world"
where
  "dispatch jwt_decode be POST_items request w =
     token_required jwt_decode (create_item be) request w"
| "dispatch jwt_decode be GET_items request w =
     token_required jwt_decode
       (\<lambda>current_user rq w'. flask_view (retry_grpc_default (get_all_items be current_user rq) w'))
       request w"
| "dispatch jwt_decode be (GET_item item_id) request w =
     flask_view (retry_grpc_default (get_item be item_id) w)"
| "dispatch jwt_decode be GET_health request w = health_check be w"
| "dispatch jwt_decode be POST_reset_breaker request w = reset_breaker w"

text \<open>
  A request carries a valid bearer token when \<^verbatim>\<open>token_required\<close> reaches the call of the
  view function: the header starts with \<^verbatim>\<open>Bearer \<close>, the token decodes, and the payload
  has a \<^verbatim>\<open>username\<close>.
\<close>

definition valid_bearer :: "(string \<Rightarrow> jwt_error + jobject) \<Rightarrow> http_request \<Rightarrow> bool" where
  "valid_bearer jwt_decode request =
     (case authorization request of
        None \<Rightarrow> False
      | Some h \<Rightarrow>
          startswith h ''Bearer '' \<and>
          (case split_space_1 h of
             None \<Rightarrow> False
           | Some token \<Rightarrow>
               (case jwt_decode token of
                  Inl e \<Rightarrow> False
                | Inr payload \<Rightarrow> map_of payload ''username'' \<noteq> None)))"

subsection \<open>The channel factory\<close>

text \<open>
  A file of the working directory: absent, present but not readable, or its content.
\<close>

datatype file_state = Missing | Unreadable | Content string

record credentials =
  root_certificates :: string
  private_key :: string
  certificate_chain :: string

datatype option_value = IntOpt int | StrOpt string

datatype channel =
    secure_channel string credentials "(string \<times> option_value) list"
  | insecure_channel string

datatype setup_error = FileNotFoundError "string list" | OSError string | CredentialError

definition cert_files :: "string list" where
  "cert_files = [''ca.crt'', ''rest-service.key'', ''rest-service.crt'']"

text \<open>\<^verbatim>\<open>open(name, "rb").read()\<close>.\<close>

definition read_file :: "(string \<Rightarrow> file_state) \<Rightarrow> string \<Rightarrow> setup_error + string" where
  "read_file fs name = (case fs name of Content c \<Rightarrow> Inr c | other \<Rightarrow> Inl (OSError name))"

definition channel_options :: "(string \<times> option_value) list" where
  "channel_options =
     [(''grpc.connect_timeout_ms'', IntOpt 5000),
      (''grpc.enable_retries'', IntOpt 1),
      (''grpc.keepalive_timeout_ms'', IntOpt 10000),
      (''grpc.ssl_target_name_override'', StrOpt ''grpc-service'')]"

text \<open>
  The body of the \<^verbatim>\<open>try\<close> of \<^verbatim>\<open>create_grpc_channel\<close>, lines 77 to 102. Whether
  \<^verbatim>\<open>grpc.ssl_channel_credentials\<close> and \<^verbatim>\<open>grpc.secure_channel\<close> take the material without
  raising is the parameter \<open>accepts\<close>.
\<close>

definition tls_channel ::
  "(string \<Rightarrow> file_state) \<Rightarrow> (credentials \<Rightarrow> bool) \<Rightarrow> string \<Rightarrow> string \<Rightarrow> setup_error + channel"
where
  "tls_channel fs accepts GRPC_HOST GRPC_PORT =
     (let missing_files = filter (\<lambda>f. fs f = Missing) cert_files
      in if missing_files \<noteq> [] then Inl (FileNotFoundError missing_files)
         else
           (case read_file fs ''ca.crt'' of
              Inl e \<Rightarrow> Inl e
            | Inr ca \<Rightarrow>
                (case read_file fs ''rest-service.key'' of
                   Inl e \<Rightarrow> Inl e
                 | Inr key \<Rightarrow>
                     (case read_file fs ''rest-service.crt'' of
                        Inl e \<Rightarrow> Inl e
                      | Inr crt \<Rightarrow>
                          (let creds = \<lparr>root_certificates = ca, private_key = key,
                                        certificate_chain = crt\<rparr>
                           in if accepts creds
                              then Inr (secure_channel (GRPC_HOST @ '':'' @ GRPC_PORT) creds
                                          channel_options)
                              else Inl CredentialError)))))"

text \<open>The whole function: the \<^verbatim>\<open>except\<close> clause answers every exception of the body.\<close>

definition create_grpc_channel ::
  "(string \<Rightarrow> file_state) \<Rightarrow> (credentials \<Rightarrow> bool) \<Rightarrow> string \<Rightarrow> string \<Rightarrow> channel"
where
  "create_grpc_channel fs accepts GRPC_HOST GRPC_PORT =
     (case tls_channel fs accepts GRPC_HOST GRPC_PORT of
        Inr channel \<Rightarrow> channel
      | Inl e \<Rightarrow> insecure_channel (GRPC_HOST @ '':'' @ GRPC_PORT))"

text \<open>The three files are there, can be read, and the library takes their content.\<close>

definition credentials_usable :: "(string \<Rightarrow> file_state) \<Rightarrow> (credentials \<Rightarrow> bool) \<Rightarrow> bool" where
  "credentials_usable fs accepts =
     (case (fs ''ca.crt'', fs ''rest-service.key'', fs ''rest-service.crt'') of
        (Content ca, Content key, Content crt) \<Rightarrow>
          accepts \<lparr>root_certificates = ca, private_key = key, certificate_chain = crt\<rparr>
      | other \<Rightarrow> False)"

section \<open>The token validator: \<^verbatim>\<open>rest/jwt_middleware.py\<close>\<close>












text \<open>The collection of the example: items 1 and 2.\<close>

definition two_items :: collection where
  "two_items = [\<lparr>doc_id = 1, doc_name = ''a''\<rparr>, \<lparr>doc_id = 2, doc_name = ''b''\<rparr>]"

section \<open>Worlds and backends of the examples\<close>

text \<open>A fresh process: the breaker closed with no failure counted.\<close>

definition w0 :: world where
  "w0 = \<lparr>clock = 0, slept = [], backend_calls = 0,
         breaker = \<lparr>mode = CLOSED, fail_counter = 0, opened_at = 0\<rparr>\<rparr>"

text \<open>A listing that is unavailable twice and then answers, and one that never answers.\<close>

definition flaky :: "nat \<Rightarrow> ItemResponse list rpc_outcome" where
  "flaky k = (if k < 2 then Failed UNAVAILABLE ''down'' else Replied [])"

definition down :: "nat \<Rightarrow> ItemResponse list rpc_outcome" where
  "down k = Failed UNAVAILABLE (if k = 2 then ''third'' else ''down'')"

text \<open>
  The process after three attempts with the two sleeps of the default policy between them.
\<close>

definition after_two_retries :: "world \<Rightarrow> world" where
  "after_two_retries w =
     w\<lparr>clock := clock w + 1 / 10 + 1 / 5, slept := slept w @ [1 / 10, 1 / 5],
       backend_calls := backend_calls w + 3\<rparr>"

text \<open>What a stub call hands to its caller for an outcome.\<close>

definition raised :: "'r rpc_outcome \<Rightarrow> py_exn + 'r" where
  "raised out = (case out of Replied r \<Rightarrow> Inr r | Failed c d \<Rightarrow> Inl (RpcError c d))"

text \<open>The outcomes of a stub call that the breaker counts as failures.\<close>

definition breaker_failure :: "'r rpc_outcome \<Rightarrow> bool" where
  "breaker_failure out = (case out of Replied r \<Rightarrow> False | Failed c d \<Rightarrow> c \<notin> set exclude)"

text \<open>Three guarded calls, one second apart, to a backend that is down.\<close>

definition three_down_calls :: world where
  "three_down_calls =
     snd (breaker_call (call_stub down)
       (tick 1 (snd (breaker_call (call_stub down)
         (tick 1 (snd (breaker_call (call_stub down) w0)))))))"

text \<open>The breaker open since second 10, at second 40.\<close>

definition w_open :: world where
  "w_open = \<lparr>clock = 40, slept = [], backend_calls = 3,
             breaker = \<lparr>mode = OPEN, fail_counter = 3, opened_at = 10\<rparr>\<rparr>"

text \<open>A listing that answers every request.\<close>

definition up :: "nat \<Rightarrow> ItemResponse list rpc_outcome" where
  "up k = Replied []"

text \<open>
  A working directory with the three credential files, and one without the key file.
\<close>

definition all_files :: "string \<Rightarrow> file_state" where
  "all_files name =
     (if name = ''ca.crt'' then Content ''CA''
      else if name = ''rest-service.key'' then Content ''KEY''
      else if name = ''rest-service.crt'' then Content ''CRT''
      else Missing)"

definition no_key_file :: "string \<Rightarrow> file_state" where
  "no_key_file name = (if name = ''rest-service.key'' then Missing else all_files name)"




text \<open>
  A token decoder that accepts the one token \<^verbatim>\<open>tok\<close>, for user \<^verbatim>\<open>admin\<close>; a request
  without an \<^verbatim>\<open>Authorization\<close> header and one with that token; a backend that answers
  every request; and a process whose breaker opened one second ago.
\<close>

definition demo_jwt :: "string \<Rightarrow> jwt_error + jobject" where
  "demo_jwt token =
     (if token = ''tok'' then Inr [(''username'', JStr ''admin'')] else Inl InvalidTokenError)"

definition anonymous :: http_request where
  "anonymous = \<lparr>authorization = None, is_json = True, json = [(''name'', JStr ''pen'')]\<rparr>"


definition backend_up :: backend where
  "backend_up =
     \<lparr>stub_GetItemById = (\<lambda>k r. Replied \<lparr>resp_id = req_id r, resp_name = ''pen''\<rparr>),
      stub_ListAllItems = up,
      stub_AddItem = (\<lambda>k r. Replied \<lparr>resp_id = 1, resp_name = req_name r\<rparr>)\<rparr>"

definition w_tripped :: world where
  "w_tripped = \<lparr>clock = 11, slept = [], backend_calls = 3,
                breaker = \<lparr>mode = OPEN, fail_counter = 3, opened_at = 10\<rparr>\<rparr>"

text \<open>
  A run of guarded calls of one stub method, each after a wait.
\<close>

fun guarded_calls :: "(nat \<Rightarrow> 'r rpc_outcome) \<Rightarrow> real list \<Rightarrow> world \<Rightarrow> world" where
  "guarded_calls rpc [] w = w"
| "guarded_calls rpc (g # gs) w =
     guarded_calls rpc gs (snd (breaker_call (call_stub rpc) (tick g w)))"

text \<open>
  The backend outcomes on the exclude list of the breaker.
\<close>

definition caller_error :: "'r rpc_outcome \<Rightarrow> bool" where
  "caller_error out =
     (case out of Replied r \<Rightarrow> False | Failed c d \<Rightarrow> c = NOT_FOUND \<or> c = INVALID_ARGUMENT)"

text \<open>
  A backend on which every lookup is not-found and every insertion a conflict, a create
  request with an explicit identifier, and the process after three such requests.
\<close>

definition not_found :: "nat \<Rightarrow> ItemResponse rpc_outcome" where
  "not_found k = Failed NOT_FOUND ''Item not found''"

definition conflict :: "nat \<Rightarrow> ItemResponse rpc_outcome" where
  "conflict k = Failed ALREADY_EXISTS ''Item exists''"

definition backend_missing :: backend where
  "backend_missing =
     \<lparr>stub_GetItemById = (\<lambda>k r. not_found k), stub_ListAllItems = up,
      stub_AddItem = (\<lambda>k r. conflict k)\<rparr>"

definition duplicate_request :: http_request where
  "duplicate_request =
     \<lparr>authorization = Some ''Bearer tok'', is_json = True,
      json = [(''id'', JInt 1), (''name'', JStr ''pen'')]\<rparr>"

definition three_conflicts :: world where
  "three_conflicts =
     snd (dispatch demo_jwt backend_missing POST_items duplicate_request
       (snd (dispatch demo_jwt backend_missing POST_items duplicate_request
         (snd (dispatch demo_jwt backend_missing POST_items duplicate_request w0)))))"

section \<open>Facts about the backend store\<close>

lemma find_one_id_None: "find_one_id docs x = None \<longleftrightarrow> x \<notin> ids docs"
  by (auto simp: find_one_id_def ids_def find_None_iff)

lemma greatest_mem: "greatest best ds \<in> insert best (set ds)"
  by (induction ds arbitrary: best) auto

lemma greatest_ge_best: "doc_id best \<le> doc_id (greatest best ds)"
proof (induction ds arbitrary: best)
  case Nil
  show ?case by simp
next
  case (Cons d ds)
  show ?case
    using Cons.IH [of d] Cons.IH [of best] by auto
qed

lemma greatest_ge: "d \<in> set ds \<Longrightarrow> doc_id d \<le> doc_id (greatest best ds)"
proof (induction ds arbitrary: best)
  case Nil
  then show ?case by simp
next
  case (Cons e es)
  show ?case
  proof (cases "d = e")
    case True
    then show ?thesis
      using greatest_ge_best [of e es] greatest_ge_best [of best es] by auto
  next
    case False
    with Cons.prems have "d \<in> set es" by simp
    then show ?thesis using Cons.IH by simp
  qed
qed

lemma greatest_Max: "doc_id (greatest best ds) = Max (insert (doc_id best) (ids ds))"
proof (rule sym, rule Max_eqI)
  show "finite (insert (doc_id best) (ids ds))" by (simp add: ids_def)
next
  fix y assume "y \<in> insert (doc_id best) (ids ds)"
  then show "y \<le> doc_id (greatest best ds)"
    using greatest_ge_best [of best ds] greatest_ge [of _ ds best] by (auto simp: ids_def)
next
  show "doc_id (greatest best ds) \<in> insert (doc_id best) (ids ds)"
    using greatest_mem [of best ds] by (auto simp: ids_def)
qed

lemma get_next_id_eq: "get_next_id docs = next_sequential docs"
  by (cases docs)
     (simp_all add: get_next_id_def find_one_sort_id_desc_def next_sequential_def
        greatest_Max, simp add: ids_def)

lemma next_sequential_fresh: "next_sequential docs \<notin> ids docs"
proof (cases docs)
  case Nil
  then show ?thesis by (simp add: ids_def)
next
  case (Cons d ds)
  have "finite (ids docs)" by (simp add: ids_def)
  then have "\<forall>x \<in> ids docs. x \<le> Max (ids docs)" by simp
  then have "Max (ids docs) + 1 \<notin> ids docs" by fastforce
  with Cons show ?thesis by (simp add: next_sequential_def)
qed

section \<open>Identifier assignment and conflicts in \<^verbatim>\<open>AddItem\<close>\<close>

lemma ids_two_items: "ids two_items = {1, 2}"
  by (simp add: two_items_def ids_def)

lemma next_sequential_two_items: "next_sequential two_items = 3"
  by (simp add: next_sequential_def ids_two_items) (simp add: two_items_def)

lemma AddItem_conflict:
  "0 < req_id r \<Longrightarrow> req_id r \<in> ids docs \<Longrightarrow>
   AddItem (Some docs) r ctx =
     (empty_response, ctx\<lparr>code := ALREADY_EXISTS, details := ''Item exists''\<rparr>, Some docs)"
  by (simp add: AddItem_def check_db_def find_one_id_None)

lemma AddItem_auto:
  "req_id r \<le> 0 \<Longrightarrow>
   AddItem (Some docs) r ctx =
     (\<lparr>resp_id = next_sequential docs, resp_name = req_name r\<rparr>, ctx,
      Some (docs @ [\<lparr>doc_id = next_sequential docs, doc_name = req_name r\<rparr>]))"
  using next_sequential_fresh [of docs]
  by (simp add: AddItem_def check_db_def insert_one_def get_next_id_eq find_one_id_None Let_def)

text \<open>
  C8. On a reachable store, a request with an explicit positive identifier that is already
  in the collection is answered with the empty message and status \<open>ALREADY_EXISTS\<close>, and
  the collection is unchanged. A request with no identifier (the field at its default 0)
  is inserted under the greatest identifier of the collection plus 1, or under 1 when the
  collection is empty, and that identifier is in the reply.
\<close>

theorem AddItem_conflict_and_next_id:
  "(0 < req_id r \<and> req_id r \<in> ids docs \<longrightarrow>
      AddItem (Some docs) r ctx =
        (empty_response, ctx\<lparr>code := ALREADY_EXISTS, details := ''Item exists''\<rparr>, Some docs))
   \<and> (req_id r = 0 \<longrightarrow>
      AddItem (Some docs) r ctx =
        (\<lparr>resp_id = next_sequential docs, resp_name = req_name r\<rparr>, ctx,
         Some (docs @ [\<lparr>doc_id = next_sequential docs, doc_name = req_name r\<rparr>])))"
  using AddItem_conflict [of r docs ctx] AddItem_auto [of r docs ctx] by simp

theorem AddItem_conflict_and_next_id_witness:
  "AddItem (Some two_items) \<lparr>req_id = 2, req_name = ''c''\<rparr> fresh_context =
     (empty_response, \<lparr>code = ALREADY_EXISTS, details = ''Item exists''\<rparr>, Some two_items)
   \<and> AddItem (Some two_items) \<lparr>req_id = 0, req_name = ''c''\<rparr> fresh_context =
     (\<lparr>resp_id = 3, resp_name = ''c''\<rparr>, fresh_context,
      Some (two_items @ [\<lparr>doc_id = 3, doc_name = ''c''\<rparr>]))
   \<and> AddItem (Some []) \<lparr>req_id = 0, req_name = ''c''\<rparr> fresh_context =
     (\<lparr>resp_id = 1, resp_name = ''c''\<rparr>, fresh_context, Some [\<lparr>doc_id = 1, doc_name = ''c''\<rparr>])"
  using AddItem_conflict_and_next_id [of "\<lparr>req_id = 2, req_name = ''c''\<rparr>" two_items fresh_context]
        AddItem_conflict_and_next_id [of "\<lparr>req_id = 0, req_name = ''c''\<rparr>" two_items fresh_context]
        AddItem_conflict_and_next_id [of "\<lparr>req_id = 0, req_name = ''c''\<rparr>" "[]" fresh_context]
  by (simp add: ids_two_items next_sequential_two_items fresh_context_def)
     (simp add: next_sequential_def)

text \<open>
  C10. On a reachable store, a request whose identifier is zero or negative never meets the
  conflict branch: the context is returned as it came (no status is set, so the call ends
  with OK, not with \<open>ALREADY_EXISTS\<close>), the supplied identifier is dropped, and the item is
  inserted and returned under the greatest identifier of the collection plus 1, or under 1
  when the collection is empty.
\<close>

theorem AddItem_nonpositive_id:
  "req_id r \<le> 0 \<Longrightarrow>
     AddItem (Some docs) r ctx =
       (\<lparr>resp_id = next_sequential docs, resp_name = req_name r\<rparr>, ctx,
        Some (docs @ [\<lparr>doc_id = next_sequential docs, doc_name = req_name r\<rparr>]))
     \<and> code (fst (snd (AddItem (Some docs) r fresh_context))) = OK"
  using AddItem_auto [of r docs ctx] AddItem_auto [of r docs fresh_context]
  by (simp add: fresh_context_def)

theorem AddItem_nonpositive_id_witness:
  "AddItem (Some two_items) \<lparr>req_id = -2, req_name = ''c''\<rparr> fresh_context =
     (\<lparr>resp_id = 3, resp_name = ''c''\<rparr>, fresh_context,
      Some (two_items @ [\<lparr>doc_id = 3, doc_name = ''c''\<rparr>]))"
  using AddItem_nonpositive_id [of "\<lparr>req_id = -2, req_name = ''c''\<rparr>" two_items fresh_context]
  by (simp add: next_sequential_two_items)

section \<open>The retry decorator: attempts, delays and the final error\<close>

lemma retry_loop_exhausted:
  "\<not> attempt < max_retries \<Longrightarrow> retry_loop max_retries attempt delay f w = (Inr None, w)"
  by (simp add: retry_loop.simps)

lemma retry_loop_return:
  "attempt < max_retries \<Longrightarrow> f w = (Inr v, w') \<Longrightarrow>
   retry_loop max_retries attempt delay f w = (Inr (Some v), w')"
  by (simp add: retry_loop.simps [of max_retries attempt])

lemma retry_loop_last:
  "attempt + 1 = max_retries \<Longrightarrow> f w = (Inl e, w') \<Longrightarrow>
   retry_loop max_retries attempt delay f w = (Inl e, w')"
  by (simp add: retry_loop.simps [of max_retries attempt])

lemma retry_loop_other:
  "attempt < max_retries \<Longrightarrow> f w = (Inl e, w') \<Longrightarrow> \<not> is_RpcError e \<Longrightarrow>
   retry_loop max_retries attempt delay f w = (Inl e, w')"
  by (simp add: retry_loop.simps [of max_retries attempt])

lemma retry_loop_again:
  "attempt + 1 < max_retries \<Longrightarrow> f w = (Inl (RpcError c d), w') \<Longrightarrow>
   retry_loop max_retries attempt delay f w =
     retry_loop max_retries (attempt + 1) (delay * 2) f (time_sleep delay w')"
  by (simp add: retry_loop.simps [of max_retries attempt])

lemma call_stub_calls: "backend_calls (snd (call_stub rpc w)) = Suc (backend_calls w)"
  by (simp add: call_stub_def)

lemma retry_loop_calls:
  "backend_calls (snd (retry_loop m a delay (call_stub rpc) w))
     \<le> backend_calls w + nat (m - a)"
proof (induction "nat (m - a)" arbitrary: a delay w)
  case 0
  then have "\<not> a < m" by simp
  then show ?case by (simp add: retry_loop_exhausted)
next
  case (Suc n)
  then have lt: "a < m" by simp
  obtain r w' where fw: "call_stub rpc w = (r, w')" by (cases "call_stub rpc w")
  have bc: "backend_calls w' = Suc (backend_calls w)"
    using call_stub_calls [of rpc w] fw by simp
  show ?case
  proof (cases r)
    case (Inr v)
    with lt fw bc show ?thesis by (simp add: retry_loop_return)
  next
    case (Inl e)
    show ?thesis
    proof (cases "is_RpcError e \<and> a + 1 < m")
      case False
      then consider "\<not> is_RpcError e" | "a + 1 = m" using lt by fastforce
      then show ?thesis
      proof cases
        case 1
        with lt fw bc Inl show ?thesis by (simp add: retry_loop_other)
      next
        case 2
        with lt fw bc Inl show ?thesis by (simp add: retry_loop_last)
      qed
    next
      case True
      then obtain c d where e: "e = RpcError c d" by (cases e) auto
      have n: "n = nat (m - (a + 1))" using Suc.hyps(2) by simp
      have "backend_calls (snd (retry_loop m (a + 1) (delay * 2) (call_stub rpc)
                                  (time_sleep delay w')))
            \<le> backend_calls (time_sleep delay w') + nat (m - (a + 1))"
        by (rule Suc.hyps(1) [OF n])
      moreover have "retry_loop m a delay (call_stub rpc) w =
            retry_loop m (a + 1) (delay * 2) (call_stub rpc) (time_sleep delay w')"
        using True fw Inl e by (simp add: retry_loop_again)
      ultimately show ?thesis using bc lt by (simp add: time_sleep_def)
    qed
  qed
qed

lemma retry_three:
  assumes "f w = (Inl (RpcError c1 d1), w1)"
      and "f (time_sleep (1 / 10) w1) = (Inl (RpcError c2 d2), w2)"
      and "f (time_sleep (1 / 5) w2) = (r3, w3)"
  shows "retry_grpc_default f w = (map_sum id Some r3, w3)"
proof -
  have 1: "retry_grpc_default f w = retry_loop 3 1 (1 / 5) f (time_sleep (1 / 10) w1)"
    using retry_loop_again [of 0 3 f w c1 d1 w1 "1 / 10"] assms(1)
    by (simp add: retry_grpc_default_def retry_grpc_def)
  have 2: "retry_loop 3 1 (1 / 5) f (time_sleep (1 / 10) w1)
           = retry_loop 3 2 (2 / 5) f (time_sleep (1 / 5) w2)"
    using retry_loop_again [of 1 3 f "time_sleep (1 / 10) w1" c2 d2 w2 "1 / 5"] assms(2)
    by simp
  have 3: "retry_loop 3 2 (2 / 5) f (time_sleep (1 / 5) w2) = (map_sum id Some r3, w3)"
  proof (cases r3)
    case (Inl e)
    then show ?thesis using retry_loop_last [of 2 3 f _ e w3] assms(3) by simp
  next
    case (Inr v)
    then show ?thesis using retry_loop_return [of 2 3 f _ v w3] assms(3) by simp
  qed
  show ?thesis using 1 2 3 by simp
qed

lemma retry_stub_three:
  assumes "rpc (backend_calls w) = Failed c1 d1"
      and "rpc (backend_calls w + 1) = Failed c2 d2"
  shows "retry_grpc_default (call_stub rpc) w =
           (case rpc (backend_calls w + 2) of
              Replied v \<Rightarrow> Inr (Some v)
            | Failed c d \<Rightarrow> Inl (RpcError c d),
            after_two_retries w)"
proof -
  let ?w1 = "w\<lparr>backend_calls := Suc (backend_calls w)\<rparr>"
  let ?w2 = "(time_sleep (1 / 10) ?w1)\<lparr>backend_calls := Suc (Suc (backend_calls w))\<rparr>"
  let ?r3 = "case rpc (backend_calls w + 2) of
               Replied v \<Rightarrow> Inr v | Failed c d \<Rightarrow> Inl (RpcError c d)"
  have 1: "call_stub rpc w = (Inl (RpcError c1 d1), ?w1)"
    using assms(1) by (simp add: call_stub_def)
  have 2: "call_stub rpc (time_sleep (1 / 10) ?w1) = (Inl (RpcError c2 d2), ?w2)"
    using assms(2) by (simp add: call_stub_def time_sleep_def)
  have 3: "call_stub rpc (time_sleep (1 / 5) ?w2) = (?r3, after_two_retries w)"
    by (simp add: call_stub_def time_sleep_def after_two_retries_def)
  have "retry_grpc_default (call_stub rpc) w = (map_sum id Some ?r3, after_two_retries w)"
    by (rule retry_three [OF 1 2 3])
  then show ?thesis by (simp split: rpc_outcome.splits)
qed

text \<open>
  C3. A call wrapped by \<^verbatim>\<open>@retry_grpc()\<close> sends at most 3 requests. When the first two
  attempts raise \<^verbatim>\<open>grpc.RpcError\<close> and the third answers, the wrapper returns that answer
  after exactly two sleeps, of 0.1 s and then 0.2 s; when all three attempts raise, the
  error of the third attempt is the one raised to the caller, after the same two sleeps.
\<close>

theorem retry_grpc_three_attempts:
  "backend_calls (snd (retry_grpc_default (call_stub rpc) w)) \<le> backend_calls w + 3
   \<and> (rpc (backend_calls w) = Failed c1 d1
        \<and> rpc (backend_calls w + 1) = Failed c2 d2
        \<and> rpc (backend_calls w + 2) = Replied v
      \<longrightarrow> retry_grpc_default (call_stub rpc) w = (Inr (Some v), after_two_retries w))
   \<and> (rpc (backend_calls w) = Failed c1 d1
        \<and> rpc (backend_calls w + 1) = Failed c2 d2
        \<and> rpc (backend_calls w + 2) = Failed c3 d3
      \<longrightarrow> retry_grpc_default (call_stub rpc) w = (Inl (RpcError c3 d3), after_two_retries w))"
  using retry_loop_calls [of 3 0 "1 / 10" rpc w] retry_stub_three [of rpc w c1 d1 c2 d2]
  by (simp add: retry_grpc_default_def retry_grpc_def)

theorem retry_grpc_three_attempts_witness:
  "retry_grpc_default (call_stub flaky) w0 =
     (Inr (Some []), w0\<lparr>clock := 3 / 10, slept := [1 / 10, 1 / 5], backend_calls := 3\<rparr>)
   \<and> retry_grpc_default (call_stub down) w0 =
     (Inl (RpcError UNAVAILABLE ''third''),
      w0\<lparr>clock := 3 / 10, slept := [1 / 10, 1 / 5], backend_calls := 3\<rparr>)"
  using retry_grpc_three_attempts [where rpc = flaky and w = w0 and ?c1.0 = UNAVAILABLE
           and ?d1.0 = "''down''" and ?c2.0 = UNAVAILABLE and ?d2.0 = "''down''" and v = "[]"]
        retry_grpc_three_attempts [where rpc = down and w = w0 and ?c1.0 = UNAVAILABLE
           and ?d1.0 = "''down''" and ?c2.0 = UNAVAILABLE and ?d2.0 = "''down''"
           and ?c3.0 = UNAVAILABLE and ?d3.0 = "''third''"]
  by (simp add: flaky_def down_def w0_def after_two_retries_def)

section \<open>The circuit breaker: opening, rejecting and the trial call\<close>

lemma counts_as_failure_raised: "counts_as_failure (raised out) = breaker_failure out"
  by (simp add: counts_as_failure_def raised_def breaker_failure_def split: rpc_outcome.splits)

lemma call_stub_raised:
  "call_stub rpc w = (raised (rpc (backend_calls w)), w\<lparr>backend_calls := Suc (backend_calls w)\<rparr>)"
  by (simp add: call_stub_def raised_def)

lemma tick_fields:
  "clock (tick d w) = clock w + d" "slept (tick d w) = slept w"
  "backend_calls (tick d w) = backend_calls w" "breaker (tick d w) = breaker w"
  by (simp_all add: tick_def)

lemma breaker_call_rejects:
  "mode (breaker w) = OPEN \<Longrightarrow> clock w < opened_at (breaker w) + reset_timeout \<Longrightarrow>
   breaker_call operation w = (Inl CircuitBreakerError, w)"
  by (simp add: breaker_call_def)

lemma breaker_call_closed:
  "mode (breaker w) = CLOSED \<Longrightarrow>
   breaker_call (call_stub rpc) w =
     (raised (rpc (backend_calls w)),
      w\<lparr>backend_calls := Suc (backend_calls w),
        breaker := on_outcome (clock w) (breaker_failure (rpc (backend_calls w))) (breaker w)\<rparr>)"
  by (simp add: breaker_call_def call_stub_raised counts_as_failure_raised)

lemma breaker_call_trial:
  "mode (breaker w) = OPEN \<Longrightarrow> opened_at (breaker w) + reset_timeout \<le> clock w \<Longrightarrow>
   breaker_call (call_stub rpc) w =
     (raised (rpc (backend_calls w)),
      w\<lparr>backend_calls := Suc (backend_calls w),
        breaker := on_outcome (clock w) (breaker_failure (rpc (backend_calls w)))
                     ((breaker w)\<lparr>mode := HALF_OPEN\<rparr>)\<rparr>)"
  by (simp add: breaker_call_def call_stub_raised counts_as_failure_raised)

lemma on_outcome_failure_closed:
  "mode b = CLOSED \<Longrightarrow>
   on_outcome now True b =
     (if 2 \<le> fail_counter b then \<lparr>mode = OPEN, fail_counter = Suc (fail_counter b), opened_at = now\<rparr>
      else b\<lparr>fail_counter := Suc (fail_counter b)\<rparr>)"
  by (auto simp: on_outcome_def fail_max_def Let_def)

text \<open>
  C1. From a closed breaker with no failure counted, three consecutive guarded calls that
  fail (with any time between them) leave the breaker \<open>OPEN\<close>, opened at the time of the
  third failure, after exactly three requests to the backend. Every call made less than 30
  seconds later is rejected with \<^verbatim>\<open>CircuitBreakerError\<close> and leaves the process as it
  was: no request is sent.
\<close>

theorem three_failures_open_breaker:
  assumes closed: "mode (breaker w) = CLOSED" and zero: "fail_counter (breaker w) = 0"
      and f1: "breaker_failure (rpc (backend_calls w))"
      and f2: "breaker_failure (rpc (backend_calls w + 1))"
      and f3: "breaker_failure (rpc (backend_calls w + 2))"
      and w3: "w3 = snd (breaker_call (call_stub rpc)
                     (tick g2 (snd (breaker_call (call_stub rpc)
                        (tick g1 (snd (breaker_call (call_stub rpc) w)))))))"
  shows "mode (breaker w3) = OPEN \<and> opened_at (breaker w3) = clock w3
         \<and> backend_calls w3 = backend_calls w + 3
         \<and> (\<forall>d (operation :: world \<Rightarrow> (py_exn + 'b) \<times> world). 0 \<le> d \<and> d < 30 \<longrightarrow>
               breaker_call operation (tick d w3) = (Inl CircuitBreakerError, tick d w3))"
proof -
  let ?w1 = "snd (breaker_call (call_stub rpc) w)"
  let ?w2 = "snd (breaker_call (call_stub rpc) (tick g1 ?w1))"
  have w1: "?w1 = w\<lparr>backend_calls := Suc (backend_calls w),
                     breaker := (breaker w)\<lparr>fail_counter := 1\<rparr>\<rparr>"
    using closed zero f1 by (simp add: breaker_call_closed on_outcome_failure_closed)
  have c1: "mode (breaker (tick g1 ?w1)) = CLOSED"
    using closed by (simp add: w1 tick_fields)
  have w2: "?w2 = (tick g1 ?w1)\<lparr>backend_calls := Suc (Suc (backend_calls w)),
                     breaker := (breaker w)\<lparr>fail_counter := 2\<rparr>\<rparr>"
    using f2 closed
    by (simp add: breaker_call_closed [OF c1] tick_fields)
       (simp add: w1 on_outcome_failure_closed)
  have c2: "mode (breaker (tick g2 ?w2)) = CLOSED"
    using closed by (simp add: w2 tick_fields)
  have w3': "w3 = (tick g2 ?w2)\<lparr>backend_calls := backend_calls w + 3,
                     breaker := \<lparr>mode = OPEN, fail_counter = 3, opened_at = clock (tick g2 ?w2)\<rparr>\<rparr>"
    using f3 closed unfolding w3
    by (simp add: breaker_call_closed [OF c2] tick_fields)
       (simp add: w2 tick_fields on_outcome_failure_closed)
  have 1: "mode (breaker w3) = OPEN" by (simp add: w3')
  have 2: "opened_at (breaker w3) = clock w3" by (simp add: w3')
  have 3: "backend_calls w3 = backend_calls w + 3" by (simp add: w3')
  have 4: "breaker_call operation (tick d w3) = (Inl CircuitBreakerError, tick d w3)"
    if "0 \<le> d \<and> d < 30" for d and operation :: "world \<Rightarrow> (py_exn + 'b) \<times> world"
    using that 1 2 by (intro breaker_call_rejects) (simp_all add: tick_fields reset_timeout_def)
  show ?thesis using 1 2 3 4 by blast
qed

theorem three_failures_open_breaker_witness:
  "mode (breaker three_down_calls) = OPEN
   \<and> backend_calls three_down_calls = 3
   \<and> breaker_call (call_stub down) (tick 5 three_down_calls)
       = (Inl CircuitBreakerError, tick 5 three_down_calls)"
proof -
  have closed: "mode (breaker w0) = CLOSED" and zero: "fail_counter (breaker w0) = 0"
    by (simp_all add: w0_def)
  have f: "breaker_failure (down k)" for k
    by (simp add: breaker_failure_def down_def exclude_def)
  have calls: "backend_calls w0 = 0" by (simp add: w0_def)
  show ?thesis
    using three_failures_open_breaker [where ?'b = "ItemResponse list" and w = w0
            and rpc = down and ?g1.0 = 1
            and ?g2.0 = 1, OF closed zero f f f three_down_calls_def]
    by (simp add: calls)
qed

text \<open>
  C2. When the breaker is \<open>OPEN\<close> and 30 seconds have passed since it opened, the next
  guarded call is let through as the one trial call: it runs with the breaker in
  \<open>HALF_OPEN\<close>, sends one request, and never leaves the breaker in \<open>HALF_OPEN\<close>. A reply
  closes the breaker with failure count 0; a failure opens it again at the time of the
  trial, so that the calls of the next 30 seconds are rejected.
\<close>

theorem half_open_trial:
  assumes opened: "mode (breaker w) = OPEN"
      and elapsed: "opened_at (breaker w) + 30 \<le> clock w"
      and trial: "(r, w') = breaker_call (call_stub rpc) w"
  shows "backend_calls w' = backend_calls w + 1
         \<and> fst (breaker_call (\<lambda>v. (Inr (mode (breaker v)), v)) w) = Inr HALF_OPEN
         \<and> mode (breaker w') \<noteq> HALF_OPEN
         \<and> (\<forall>v. rpc (backend_calls w) = Replied v \<longrightarrow>
               r = Inr v \<and> mode (breaker w') = CLOSED \<and> fail_counter (breaker w') = 0)
         \<and> (breaker_failure (rpc (backend_calls w)) \<longrightarrow>
               r = raised (rpc (backend_calls w))
               \<and> mode (breaker w') = OPEN \<and> opened_at (breaker w') = clock w'
               \<and> (\<forall>d (operation :: world \<Rightarrow> (py_exn + 'b) \<times> world).
                     0 \<le> d \<and> d < 30 \<longrightarrow>
                     breaker_call operation (tick d w') = (Inl CircuitBreakerError, tick d w')))"
proof -
  have el: "opened_at (breaker w) + reset_timeout \<le> clock w"
    using elapsed by (simp add: reset_timeout_def)
  have rw: "r = raised (rpc (backend_calls w))"
       "w' = w\<lparr>backend_calls := Suc (backend_calls w),
               breaker := on_outcome (clock w) (breaker_failure (rpc (backend_calls w)))
                            ((breaker w)\<lparr>mode := HALF_OPEN\<rparr>)\<rparr>"
    using trial breaker_call_trial [OF opened el, of rpc] by simp_all
  have 1: "backend_calls w' = backend_calls w + 1" by (simp add: rw)
  have 2: "fst (breaker_call (\<lambda>v. (Inr (mode (breaker v)), v)) w) = Inr HALF_OPEN"
    using opened el by (simp add: breaker_call_def)
  have 3: "mode (breaker w') \<noteq> HALF_OPEN"
    by (simp add: rw on_outcome_def Let_def)
  have 4: "r = Inr v \<and> mode (breaker w') = CLOSED \<and> fail_counter (breaker w') = 0"
    if "rpc (backend_calls w) = Replied v" for v
    using that by (simp add: rw raised_def breaker_failure_def on_outcome_def)
  have 5: "mode (breaker w') = OPEN \<and> opened_at (breaker w') = clock w'"
    if "breaker_failure (rpc (backend_calls w))"
    using that by (simp add: rw on_outcome_def Let_def)
  have 6: "breaker_call operation (tick d w') = (Inl CircuitBreakerError, tick d w')"
    if "breaker_failure (rpc (backend_calls w))" "0 \<le> d \<and> d < 30"
    for d and operation :: "world \<Rightarrow> (py_exn + 'b) \<times> world"
    using that 5 by (intro breaker_call_rejects) (simp_all add: tick_fields reset_timeout_def)
  show ?thesis using 1 2 3 4 5 6 rw(1) by blast
qed

theorem half_open_trial_witness:
  "breaker_call (call_stub up) w_open =
     (Inr [], w_open\<lparr>backend_calls := 4,
                     breaker := \<lparr>mode = CLOSED, fail_counter = 0, opened_at = 10\<rparr>\<rparr>)
   \<and> breaker_call (call_stub down) w_open =
     (Inl (RpcError UNAVAILABLE ''down''),
      w_open\<lparr>backend_calls := 4,
             breaker := \<lparr>mode = OPEN, fail_counter = 4, opened_at = 40\<rparr>\<rparr>)
   \<and> fst (breaker_call (call_stub down)
             (tick 29 (snd (breaker_call (call_stub down) w_open)))) = Inl CircuitBreakerError"
proof -
  have opened: "mode (breaker w_open) = OPEN"
    and elapsed: "opened_at (breaker w_open) + 30 \<le> clock w_open"
    by (simp_all add: w_open_def)
  have el: "opened_at (breaker w_open) + reset_timeout \<le> clock w_open"
    by (simp add: w_open_def reset_timeout_def)
  have a: "breaker_call (call_stub up) w_open =
     (Inr [], w_open\<lparr>backend_calls := 4,
                     breaker := \<lparr>mode = CLOSED, fail_counter = 0, opened_at = 10\<rparr>\<rparr>)"
    by (simp add: breaker_call_trial [OF opened el] raised_def up_def breaker_failure_def
          on_outcome_def) (simp add: w_open_def)
  have b: "breaker_call (call_stub down) w_open =
     (Inl (RpcError UNAVAILABLE ''down''),
      w_open\<lparr>backend_calls := 4,
             breaker := \<lparr>mode = OPEN, fail_counter = 4, opened_at = 40\<rparr>\<rparr>)"
    by (simp add: breaker_call_trial [OF opened el] raised_def down_def breaker_failure_def
          on_outcome_def exclude_def Let_def) (simp add: w_open_def)
  have f: "breaker_failure (down (backend_calls w_open))"
    by (simp add: breaker_failure_def down_def exclude_def)
  have "fst (breaker_call (call_stub down)
             (tick 29 (snd (breaker_call (call_stub down) w_open)))) = Inl CircuitBreakerError"
    using half_open_trial [where ?'b = "ItemResponse list", OF opened elapsed,
            of "fst (breaker_call (call_stub down) w_open)"
            "snd (breaker_call (call_stub down) w_open)" down] f
    by simp
  with a b show ?thesis by simp
qed

section \<open>The channel factory: secure channel or fallback\<close>

lemma tls_channel_usable:
  "credentials_usable fs accepts \<Longrightarrow>
   \<exists>ca key crt. fs ''ca.crt'' = Content ca \<and> fs ''rest-service.key'' = Content key
      \<and> fs ''rest-service.crt'' = Content crt
      \<and> tls_channel fs accepts h p =
          Inr (secure_channel (h @ '':'' @ p)
                 \<lparr>root_certificates = ca, private_key = key, certificate_chain = crt\<rparr>
                 channel_options)"
  by (auto simp: credentials_usable_def tls_channel_def cert_files_def read_file_def
           split: file_state.splits)

lemma tls_channel_unusable:
  "\<not> credentials_usable fs accepts \<Longrightarrow> \<exists>e. tls_channel fs accepts h p = Inl e"
  by (auto simp: credentials_usable_def tls_channel_def cert_files_def read_file_def Let_def
           split: file_state.splits)

text \<open>
  C6. When the three credential files are present and readable and the library takes their
  content, \<^verbatim>\<open>create_grpc_channel\<close> returns the secure channel to
  \<^verbatim>\<open>GRPC_HOST:GRPC_PORT\<close> built from them, whose options override the expected server
  name with \<^verbatim>\<open>grpc-service\<close>. In every other case it returns the insecure channel to the
  same address. These two cases are all there are, so it returns a channel in every case.
\<close>

theorem create_grpc_channel_secure_or_fallback:
  "(credentials_usable fs accepts \<longrightarrow>
      (\<exists>ca key crt. fs ''ca.crt'' = Content ca \<and> fs ''rest-service.key'' = Content key
         \<and> fs ''rest-service.crt'' = Content crt
         \<and> create_grpc_channel fs accepts h p =
             secure_channel (h @ '':'' @ p)
               \<lparr>root_certificates = ca, private_key = key, certificate_chain = crt\<rparr>
               channel_options)
      \<and> map_of channel_options ''grpc.ssl_target_name_override'' = Some (StrOpt ''grpc-service''))
   \<and> (\<not> credentials_usable fs accepts \<longrightarrow>
      create_grpc_channel fs accepts h p = insecure_channel (h @ '':'' @ p))"
proof -
  have a: "map_of channel_options ''grpc.ssl_target_name_override'' = Some (StrOpt ''grpc-service'')"
    by (simp add: channel_options_def)
  show ?thesis
    using tls_channel_usable [of fs accepts h p] tls_channel_unusable [of fs accepts h p] a
    by (auto simp: create_grpc_channel_def)
qed

theorem create_grpc_channel_secure_or_fallback_witness:
  "create_grpc_channel all_files (\<lambda>c. True) ''localhost'' ''50051'' =
     secure_channel ''localhost:50051''
       \<lparr>root_certificates = ''CA'', private_key = ''KEY'', certificate_chain = ''CRT''\<rparr>
       channel_options
   \<and> create_grpc_channel no_key_file (\<lambda>c. True) ''localhost'' ''50051'' =
     insecure_channel ''localhost:50051''
   \<and> create_grpc_channel all_files (\<lambda>c. False) ''localhost'' ''50051'' =
     insecure_channel ''localhost:50051''"
  using create_grpc_channel_secure_or_fallback [of all_files "\<lambda>c. True" "''localhost''" "''50051''"]
        create_grpc_channel_secure_or_fallback [of no_key_file "\<lambda>c. True" "''localhost''" "''50051''"]
        create_grpc_channel_secure_or_fallback [of all_files "\<lambda>c. False" "''localhost''" "''50051''"]
  by (simp add: credentials_usable_def all_files_def no_key_file_def)

section \<open>Authentication of the routes, and retry beside the breaker\<close>

lemma token_required_rejects:
  "\<not> valid_bearer jwt_decode request \<Longrightarrow>
   \<exists>msg. token_required jwt_decode f request w = ((Error msg, 401), w)"
  by (auto simp: token_required_def valid_bearer_def startswith_def
           split: option.splits sum.splits jwt_error.splits)




lemma retry_first_return:
  "f w = (Inr v, w') \<Longrightarrow> retry_grpc_default f w = (Inr (Some v), w')"
  by (simp add: retry_grpc_default_def retry_grpc_def retry_loop_return)


text \<open>
  C7, as the code has it. A request to \<^verbatim>\<open>GET /items\<close> or \<^verbatim>\<open>POST /items\<close> without a valid
  bearer token is answered 401 with the process unchanged: no handler or backend logic has
  run. \<^verbatim>\<open>GET /health\<close> and \<^verbatim>\<open>POST /reset-breaker\<close> are answered 200 whatever the request
  carries.
\<close>

theorem token_required_on_items_routes:
  "(\<not> valid_bearer jwt_decode request \<longrightarrow>
      (\<exists>msg. dispatch jwt_decode be GET_items request w = ((Error msg, 401), w))
      \<and> (\<exists>msg. dispatch jwt_decode be POST_items request w = ((Error msg, 401), w)))
   \<and> snd (fst (dispatch jwt_decode be GET_health request w)) = 200
   \<and> snd (fst (dispatch jwt_decode be POST_reset_breaker request w)) = 200"
proof -
  have "snd (fst (health_check be w)) = 200"
    by (auto simp: health_check_def call_stub_def split: rpc_outcome.splits)
  moreover have "snd (fst (reset_breaker w)) = 200"
    by (simp add: reset_breaker_def)
  ultimately show ?thesis
    using token_required_rejects [of jwt_decode request "create_item be" w]
          token_required_rejects [of jwt_decode request
            "\<lambda>current_user rq w'. flask_view (retry_grpc_default (get_all_items be current_user rq) w')" w]
    by auto
qed

text \<open>
  C7 as stated fails on \<^verbatim>\<open>POST /reset-breaker\<close>: a request without any \<^verbatim>\<open>Authorization\<close>
  header is answered 200, and its handler has run, closing the open breaker.
\<close>

theorem reset_breaker_needs_no_token:
  "\<not> valid_bearer demo_jwt anonymous
   \<and> dispatch demo_jwt backend_up POST_reset_breaker anonymous w_tripped =
       ((BreakerJson ''success'' ''closed'' 0, 200),
        w_tripped\<lparr>breaker := \<lparr>mode = CLOSED, fail_counter = 0, opened_at = 10\<rparr>\<rparr>)"
  by (simp add: valid_bearer_def anonymous_def reset_breaker_def breaker_close_def w_tripped_def)

theorem token_required_on_items_routes_witness:
  "dispatch demo_jwt backend_up GET_items anonymous w0
     = ((Error ''Missing authorization header'', 401), w0)
   \<and> dispatch demo_jwt backend_up POST_items anonymous w0
     = ((Error ''Missing authorization header'', 401), w0)"
proof -
  have "\<not> valid_bearer demo_jwt anonymous"
    by (simp add: valid_bearer_def anonymous_def)
  then show ?thesis
    using token_required_on_items_routes [of demo_jwt anonymous backend_up w0]
    by (auto simp: token_required_def anonymous_def)
qed


section \<open>Caller errors, retries and the failure count\<close>

lemma caller_error_not_failure: "caller_error out \<Longrightarrow> \<not> breaker_failure out"
  by (auto simp: caller_error_def breaker_failure_def exclude_def split: rpc_outcome.splits)

lemma breaker_call_not_counted:
  "mode (breaker w) = CLOSED \<Longrightarrow> \<not> breaker_failure (rpc (backend_calls w)) \<Longrightarrow>
   breaker_call (call_stub rpc) w =
     (raised (rpc (backend_calls w)),
      w\<lparr>backend_calls := Suc (backend_calls w),
        breaker := \<lparr>mode = CLOSED, fail_counter = 0, opened_at = opened_at (breaker w)\<rparr>\<rparr>)"
  by (simp add: breaker_call_closed on_outcome_def)

lemma guarded_calls_caller_errors:
  "mode (breaker w) = CLOSED \<Longrightarrow> \<forall>k. caller_error (rpc k) \<Longrightarrow>
   mode (breaker (guarded_calls rpc gaps w)) = CLOSED
   \<and> fail_counter (breaker (guarded_calls rpc gaps w)) \<le> fail_counter (breaker w)
   \<and> backend_calls (guarded_calls rpc gaps w) = backend_calls w + length gaps
   \<and> slept (guarded_calls rpc gaps w) = slept w"
proof (induction gaps arbitrary: w)
  case Nil
  then show ?case by simp
next
  case (Cons g gs)
  let ?w1 = "snd (breaker_call (call_stub rpc) (tick g w))"
  have closed: "mode (breaker (tick g w)) = CLOSED"
    using Cons.prems(1) by (simp add: tick_fields)
  have nf: "\<not> breaker_failure (rpc (backend_calls (tick g w)))"
    using Cons.prems(2) caller_error_not_failure by blast
  have w1: "?w1 = (tick g w)\<lparr>backend_calls := Suc (backend_calls w),
              breaker := \<lparr>mode = CLOSED, fail_counter = 0, opened_at = opened_at (breaker w)\<rparr>\<rparr>"
    using breaker_call_not_counted [of "tick g w" rpc] closed nf by (simp add: tick_fields)
  have c1: "mode (breaker ?w1) = CLOSED" by (simp add: w1)
  have "mode (breaker (guarded_calls rpc gs ?w1)) = CLOSED
   \<and> fail_counter (breaker (guarded_calls rpc gs ?w1)) \<le> fail_counter (breaker ?w1)
   \<and> backend_calls (guarded_calls rpc gs ?w1) = backend_calls ?w1 + length gs
   \<and> slept (guarded_calls rpc gs ?w1) = slept ?w1"
    by (rule Cons.IH [OF c1 Cons.prems(2)])
  moreover have "fail_counter (breaker ?w1) = 0" "backend_calls ?w1 = Suc (backend_calls w)"
    "slept ?w1 = slept w"
    by (simp_all add: w1 tick_fields)
  ultimately show ?case by simp
qed

lemma get_item_not_found:
  "stub_GetItemById be (backend_calls w) \<lparr>req_id = item_id, req_name = []\<rparr> = Failed NOT_FOUND d \<Longrightarrow>
   retry_grpc_default (get_item be item_id) w =
     (Inr (Some (Error ''Item not found'', 404)), w\<lparr>backend_calls := Suc (backend_calls w)\<rparr>)"
  by (rule retry_first_return) (simp add: get_item_def call_stub_def)

lemma already_exists_counted:
  "mode (breaker w) = CLOSED \<Longrightarrow> rpc (backend_calls w) = Failed ALREADY_EXISTS d \<Longrightarrow>
   fail_counter (breaker (snd (breaker_call (call_stub rpc) w))) = Suc (fail_counter (breaker w))
   \<and> backend_calls (snd (breaker_call (call_stub rpc) w)) = Suc (backend_calls w)
   \<and> slept (snd (breaker_call (call_stub rpc) w)) = slept w"
  by (simp add: breaker_call_closed breaker_failure_def exclude_def on_outcome_def Let_def)

text \<open>
  C4, as the code has it. On a closed breaker, a not-found or invalid-argument outcome of a
  guarded call is handed to the caller, and any run of such outcomes leaves the breaker
  closed with a failure count that has not grown, after one request per call and no sleep.
  A not-found outcome of \<^verbatim>\<open>GET /items/<id>\<close> is answered 404 after one request, with no
  retry. An already-exists outcome of a guarded call is not retried either, but it is not
  on the exclude list: it raises the failure count by one.
\<close>

theorem caller_errors_not_retried_not_counted:
  "(mode (breaker w) = CLOSED \<and> (\<forall>k. caller_error (rpc k)) \<longrightarrow>
      fst (breaker_call (call_stub rpc) w) = raised (rpc (backend_calls w))
      \<and> mode (breaker (guarded_calls rpc gaps w)) = CLOSED
      \<and> fail_counter (breaker (guarded_calls rpc gaps w)) \<le> fail_counter (breaker w)
      \<and> backend_calls (guarded_calls rpc gaps w) = backend_calls w + length gaps
      \<and> slept (guarded_calls rpc gaps w) = slept w)
   \<and> (stub_GetItemById be (backend_calls w) \<lparr>req_id = item_id, req_name = []\<rparr>
         = Failed NOT_FOUND d \<longrightarrow>
      retry_grpc_default (get_item be item_id) w =
        (Inr (Some (Error ''Item not found'', 404)), w\<lparr>backend_calls := Suc (backend_calls w)\<rparr>))
   \<and> (mode (breaker w) = CLOSED \<and> rpc' (backend_calls w) = Failed ALREADY_EXISTS d' \<longrightarrow>
      fail_counter (breaker (snd (breaker_call (call_stub rpc') w))) = Suc (fail_counter (breaker w))
      \<and> backend_calls (snd (breaker_call (call_stub rpc') w)) = Suc (backend_calls w)
      \<and> slept (snd (breaker_call (call_stub rpc') w)) = slept w)"
proof -
  have "fst (breaker_call (call_stub rpc) w) = raised (rpc (backend_calls w))"
    if "mode (breaker w) = CLOSED"
    using that by (simp add: breaker_call_closed)
  then show ?thesis
    using guarded_calls_caller_errors [of w rpc gaps] get_item_not_found [of be w item_id d]
          already_exists_counted [of w rpc' d']
    by blast
qed

lemma post_duplicate:
  "dispatch demo_jwt backend_missing POST_items duplicate_request w =
     (case breaker_call (call_stub conflict) w of
        (Inr r, w') \<Rightarrow> ((ItemJson (resp_id r) (resp_name r), 201), w')
      | (Inl (RpcError c d), w') \<Rightarrow> ((Error (''Service error: '' @ d), 500), w')
      | (Inl e, w') \<Rightarrow> ((Error ''Internal server error'', 500), w'))"
proof -
  have c: "split_space_1 ''Bearer tok'' = Some ''tok''"
    by (simp add: split_space_1_def)
  have "dispatch demo_jwt backend_missing POST_items duplicate_request w =
        create_item backend_missing (JStr ''admin'') duplicate_request w"
    by (simp add: token_required_def duplicate_request_def startswith_def c demo_jwt_def)
  then show ?thesis
    by (simp add: create_item_def duplicate_request_def backend_missing_def)
qed

lemma post_duplicate_closed:
  "mode (breaker w) = CLOSED \<Longrightarrow>
   dispatch demo_jwt backend_missing POST_items duplicate_request w =
     ((Error ''Service error: Item exists'', 500),
      w\<lparr>backend_calls := Suc (backend_calls w),
        breaker := on_outcome (clock w) True (breaker w)\<rparr>)"
  by (simp add: post_duplicate breaker_call_closed conflict_def raised_def breaker_failure_def
        exclude_def del: dispatch.simps)

text \<open>
  C4 as stated fails for already-exists: three create requests in a row that the backend
  answers with \<open>ALREADY_EXISTS\<close> open the breaker, and the fourth is rejected by the
  breaker without a request to the backend.
\<close>

theorem already_exists_opens_breaker:
  "mode (breaker three_conflicts) = OPEN
   \<and> fail_counter (breaker three_conflicts) = 3
   \<and> backend_calls three_conflicts = 3
   \<and> dispatch demo_jwt backend_missing POST_items duplicate_request three_conflicts =
       ((Error ''Internal server error'', 500), three_conflicts)"
proof -
  let ?b0 = "\<lparr>mode = CLOSED, fail_counter = 0, opened_at = 0\<rparr>"
  have 1: "snd (dispatch demo_jwt backend_missing POST_items duplicate_request w0)
           = w0\<lparr>backend_calls := 1, breaker := ?b0\<lparr>fail_counter := 1\<rparr>\<rparr>"
    by (simp add: post_duplicate_closed w0_def on_outcome_failure_closed del: dispatch.simps)
  have 2: "snd (dispatch demo_jwt backend_missing POST_items duplicate_request
                  (w0\<lparr>backend_calls := 1, breaker := ?b0\<lparr>fail_counter := 1\<rparr>\<rparr>))
           = w0\<lparr>backend_calls := 2, breaker := ?b0\<lparr>fail_counter := 2\<rparr>\<rparr>"
    by (simp add: post_duplicate_closed w0_def on_outcome_failure_closed del: dispatch.simps)
  have 3: "snd (dispatch demo_jwt backend_missing POST_items duplicate_request
                  (w0\<lparr>backend_calls := 2, breaker := ?b0\<lparr>fail_counter := 2\<rparr>\<rparr>))
           = w0\<lparr>backend_calls := 3,
                 breaker := \<lparr>mode = OPEN, fail_counter = 3, opened_at = 0\<rparr>\<rparr>"
    by (simp add: post_duplicate_closed w0_def on_outcome_failure_closed del: dispatch.simps)
  have w: "three_conflicts = w0\<lparr>backend_calls := 3,
                 breaker := \<lparr>mode = OPEN, fail_counter = 3, opened_at = 0\<rparr>\<rparr>"
    unfolding three_conflicts_def by (simp only: 1 2 3)
  have "breaker_call (call_stub conflict) three_conflicts
        = (Inl CircuitBreakerError, three_conflicts)"
    by (rule breaker_call_rejects) (simp_all add: w w0_def reset_timeout_def)
  then have "dispatch demo_jwt backend_missing POST_items duplicate_request three_conflicts =
       ((Error ''Internal server error'', 500), three_conflicts)"
    by (simp add: post_duplicate del: dispatch.simps)
  then show ?thesis by (simp add: w w0_def del: dispatch.simps)
qed

theorem caller_errors_not_retried_not_counted_witness:
  "mode (breaker (guarded_calls not_found [1, 1, 1, 1] w0)) = CLOSED
   \<and> fail_counter (breaker (guarded_calls not_found [1, 1, 1, 1] w0)) = 0
   \<and> backend_calls (guarded_calls not_found [1, 1, 1, 1] w0) = 4
   \<and> retry_grpc_default (get_item backend_missing 7) w0 =
       (Inr (Some (Error ''Item not found'', 404)), w0\<lparr>backend_calls := 1\<rparr>)
   \<and> fail_counter (breaker (snd (breaker_call (call_stub conflict) w0))) = 1"
proof -
  have a: "mode (breaker w0) = CLOSED \<and> (\<forall>k. caller_error (not_found k))"
    by (simp add: w0_def caller_error_def not_found_def)
  have b: "stub_GetItemById backend_missing (backend_calls w0) \<lparr>req_id = 7, req_name = []\<rparr>
           = Failed NOT_FOUND ''Item not found''"
    by (simp add: backend_missing_def not_found_def)
  have c: "mode (breaker w0) = CLOSED
           \<and> conflict (backend_calls w0) = Failed ALREADY_EXISTS ''Item exists''"
    by (simp add: w0_def conflict_def)
  have z: "fail_counter (breaker w0) = 0" "backend_calls w0 = 0" by (simp_all add: w0_def)
  show ?thesis
    using caller_errors_not_retried_not_counted [where w = w0 and rpc = not_found
            and gaps = "[1, 1, 1, 1]" and be = backend_missing and item_id = 7
            and d = "''Item not found''" and rpc' = conflict and d' = "''Item exists''"]
          a b c
    by (simp add: z)
qed

section \<open>The token validator and the request path\<close>











end
